theory Spec2Isabelle
  imports Complex_Main
begin

section \<open>JavaScript values\<close>

text \<open>
  The server is an ES module for Node. Its data are JavaScript values: what \<open>JSON.parse\<close>
  returns, and \<open>undefined\<close>, the value of a property that is not there. A number is kept as
  a rational: the program only ever tests one for truthiness. An object is the list of its
  own properties (keys distinct, as \<open>JSON.parse\<close> builds them); a string is the byte string
  of its UTF-8 text.
\<close>

datatype js =
    JUndefined
  | JNull
  | JBool bool
  | JNum rat
  | JStr string
  | JArr "js list"
  | JObj "(string \<times> js) list"

text \<open>What a \<open>throw\<close>, a rejected promise or a failing library call carries.\<close>

datatype exn =
    SyntaxError
  | TypeError
  | FetchError
  | Error string
  | StoreArgument
  | StoreNotFound
  | StoreFault

text \<open>\<open>!v\<close> is \<open>\<not> truthy v\<close>.\<close>

fun truthy :: "js \<Rightarrow> bool" where
  "truthy JUndefined = False"
| "truthy JNull = False"
| "truthy (JBool b) = b"
| "truthy (JNum n) = (n \<noteq> 0)"
| "truthy (JStr s) = (s \<noteq> [])"
| "truthy (JArr xs) = True"
| "truthy (JObj kvs) = True"

text \<open>
  Whether converting \<open>v\<close> to a string, as a template literal does, throws a TypeError.
  An object built by \<open>JSON.parse\<close> has no callable property of its own: with an own
  property \<open>toString\<close> it loses the inherited method, and then neither \<open>toString\<close>
  nor \<open>valueOf\<close> gives a primitive. An array joins the strings of its elements.
\<close>

fun ToString_throws :: "js \<Rightarrow> bool" where
  "ToString_throws (JObj kvs) = (map_of kvs ''toString'' \<noteq> None)"
| "ToString_throws (JArr xs) = list_ex ToString_throws xs"
| "ToString_throws JUndefined = False"
| "ToString_throws JNull = False"
| "ToString_throws (JBool b) = False"
| "ToString_throws (JNum n) = False"
| "ToString_throws (JStr s) = False"

text \<open>
  \<open>v.k\<close> for the property names the program reads (\<open>event_type\<close>, \<open>resource\<close>,
  \<open>custom_id\<close>, \<open>access_token\<close>, \<open>verification_status\<close>; none is a property of a
  prototype): a TypeError on \<open>undefined\<close> and \<open>null\<close>, the own property of an object,
  \<open>undefined\<close> on everything else.
\<close>

fun get_prop :: "js \<Rightarrow> string \<Rightarrow> exn + js" where
  "get_prop JUndefined k = Inl TypeError"
| "get_prop JNull k = Inl TypeError"
| "get_prop (JObj kvs) k = Inr (case map_of kvs k of None \<Rightarrow> JUndefined | Some v \<Rightarrow> v)"
| "get_prop (JBool b) k = Inr JUndefined"
| "get_prop (JNum n) k = Inr JUndefined"
| "get_prop (JStr s) k = Inr JUndefined"
| "get_prop (JArr xs) k = Inr JUndefined"

text \<open>The decimal text of a number, as a template literal interpolates \<open>response.status\<close>.\<close>

definition digit_char :: "nat \<Rightarrow> char" where
  "digit_char d = ''0123456789'' ! d"

fun string_of_nat :: "nat \<Rightarrow> string" where
  "string_of_nat n =
     (if n < 10 then [digit_char n]
      else string_of_nat (n div 10) @ [digit_char (n mod 10)])"

declare string_of_nat.simps [simp del]

section \<open>The platform\<close>

text \<open>
  An HTTP request as \<open>fetch\<close> receives it. The Authorization header is kept by its parts:
  \<open>Basic\<close> stands for \<open>Basic\<close> and the base64 text of \<open>id:secret\<close>, \<open>Bearer\<close> for
  \<open>Bearer\<close> and the interpolated token.
\<close>

datatype authorization =
    Basic "string option" "string option"
  | Bearer js

record http_request =
  url :: string
  http_method :: string
  content_type :: string
  auth :: authorization
  payload :: string

text \<open>
  A response, once \<open>fetch\<close> has resolved: its status, and what reading its body gives
  (the read itself can reject).
\<close>

record http_response =
  status :: nat
  body_text :: "exn + string"

definition ok :: "http_response \<Rightarrow> bool" where
  "ok response = (200 \<le> status response \<and> status response \<le> 299)"

text \<open>
  Everything the program calls and does not define: the environment variables, the
  runtime's JSON functions, \<open>Buffer.toString\<close>, the parser inside \<open>express.json\<close>,
  \<open>fetch\<close> (which rejects or resolves; the program sets no timeout, and a call that never
  settles is outside this model), whether the store's client refuses a string as a
  document id (\<open>doc\<close> throws: not a document path), and whether the store fails an update
  of a document for a reason of its own (transient I/O, permissions).
  \<open>JSON_parse\<close> is \<open>None\<close> where \<open>JSON.parse\<close> throws its SyntaxError.
\<close>

record platform =
  env :: "string \<Rightarrow> string option"
  JSON_parse :: "string \<Rightarrow> js option"
  JSON_stringify :: "js \<Rightarrow> string"
  Buffer_toString :: "string \<Rightarrow> string"
  body_parse :: "string \<Rightarrow> js option"
  fetch :: "http_request \<Rightarrow> exn + http_response"
  doc_refuses :: "string \<Rightarrow> bool"
  store_fault :: "string \<Rightarrow> bool"

definition response_text :: "http_response \<Rightarrow> exn + string" where
  "response_text response = body_text response"

definition response_json :: "platform \<Rightarrow> http_response \<Rightarrow> exn + js" where
  "response_json p response =
     (case body_text response of
        Inl e \<Rightarrow> Inl e
      | Inr s \<Rightarrow> (case JSON_parse p s of None \<Rightarrow> Inl SyntaxError | Some v \<Rightarrow> Inr v))"

section \<open>Credential exchange\<close>

definition PAYPAL_API_BASE :: "platform \<Rightarrow> string" where
  "PAYPAL_API_BASE p =
     (if env p ''NODE_ENV'' = Some ''production''
      then ''https://api-m.paypal.com''
      else ''https://api-m.sandbox.paypal.com'')"

definition token_request :: "platform \<Rightarrow> http_request" where
  "token_request p =
     \<lparr> url = PAYPAL_API_BASE p @ ''/v1/oauth2/token'',
       http_method = ''POST'',
       content_type = ''application/x-www-form-urlencoded'',
       auth = Basic (env p ''PAYPAL_CLIENT_ID'') (env p ''PAYPAL_CLIENT_SECRET''),
       payload = ''grant_type=client_credentials'' \<rparr>"

definition getPayPalAccessToken :: "platform \<Rightarrow> exn + js" where
  "getPayPalAccessToken p =
     (case fetch p (token_request p) of
        Inl e \<Rightarrow> Inl e
      | Inr response \<Rightarrow>
          if \<not> ok response then
            (case response_text response of
               Inl e \<Rightarrow> Inl e
             | Inr errorData \<Rightarrow>
                 Inl (Error (''Failed to get PayPal access token. Status: ''
                             @ string_of_nat (status response))))
          else
            (case response_json p response of
               Inl e \<Rightarrow> Inl e
             | Inr data \<Rightarrow> get_prop data ''access_token''))"

section \<open>Signature verification\<close>

type_synonym headers = "string \<Rightarrow> string option"

definition header :: "headers \<Rightarrow> string \<Rightarrow> js" where
  "header hs k = (case hs k of None \<Rightarrow> JUndefined | Some v \<Rightarrow> JStr v)"

definition verificationData :: "platform \<Rightarrow> headers \<Rightarrow> js \<Rightarrow> js" where
  "verificationData p hs webhook_event =
     JObj [ (''auth_algo'', header hs ''paypal-auth-algo''),
            (''cert_url'', header hs ''paypal-cert-url''),
            (''transmission_id'', header hs ''paypal-transmission-id''),
            (''transmission_sig'', header hs ''paypal-transmission-sig''),
            (''transmission_time'', header hs ''paypal-transmission-time''),
            (''webhook_id'', header (env p) ''PAYPAL_WEBHOOK_ID''),
            (''webhook_event'', webhook_event) ]"

text \<open>
  \<open>JSON.parse(rawBody)\<close>: \<open>rawBody\<close> is \<open>undefined\<close> when the middleware stored none, and
  \<open>JSON.parse(undefined)\<close> reads the text \<open>undefined\<close>, which is not JSON.
\<close>

definition parse_rawBody :: "platform \<Rightarrow> string option \<Rightarrow> exn + js" where
  "parse_rawBody p rawBody =
     (case rawBody of
        None \<Rightarrow> Inl SyntaxError
      | Some s \<Rightarrow> (case JSON_parse p s of None \<Rightarrow> Inl SyntaxError | Some v \<Rightarrow> Inr v))"

definition verification_request :: "platform \<Rightarrow> headers \<Rightarrow> js \<Rightarrow> js \<Rightarrow> http_request" where
  "verification_request p hs accessToken webhook_event =
     \<lparr> url = PAYPAL_API_BASE p @ ''/v1/notifications/verify-webhook-signature'',
       http_method = ''POST'',
       content_type = ''application/json'',
       auth = Bearer accessToken,
       payload = JSON_stringify p (verificationData p hs webhook_event) \<rparr>"

text \<open>
  The request that \<open>verifyPayPalWebhook\<close> hands to its second \<open>fetch\<close>, or what was thrown
  before it was built: the token exchange first, then the parse of the raw body.
\<close>

definition verification_post :: "platform \<Rightarrow> headers \<Rightarrow> string option \<Rightarrow> exn + http_request" where
  "verification_post p hs rawBody =
     (case getPayPalAccessToken p of
        Inl e \<Rightarrow> Inl e
      | Inr accessToken \<Rightarrow>
          (case parse_rawBody p rawBody of
             Inl e \<Rightarrow> Inl e
           | Inr webhook_event \<Rightarrow>
               Inr (verification_request p hs accessToken webhook_event)))"

text \<open>The body of the \<open>try\<close> block, and the function with its \<open>catch\<close>.\<close>

definition verifyPayPalWebhook_try :: "platform \<Rightarrow> headers \<Rightarrow> string option \<Rightarrow> exn + bool" where
  "verifyPayPalWebhook_try p hs rawBody =
     (case verification_post p hs rawBody of
        Inl e \<Rightarrow> Inl e
      | Inr request \<Rightarrow>
          (case fetch p request of
             Inl e \<Rightarrow> Inl e
           | Inr response \<Rightarrow>
               if \<not> ok response then
                 (case response_text response of
                    Inl e \<Rightarrow> Inl e
                  | Inr errorText \<Rightarrow> Inr False)
               else
                 (case response_json p response of
                    Inl e \<Rightarrow> Inl e
                  | Inr verificationResult \<Rightarrow>
                      (case get_prop verificationResult ''verification_status'' of
                         Inl e \<Rightarrow> Inl e
                       | Inr verification_status \<Rightarrow>
                           Inr (verification_status = JStr ''SUCCESS'')))))"

definition verifyPayPalWebhook :: "platform \<Rightarrow> headers \<Rightarrow> string option \<Rightarrow> bool" where
  "verifyPayPalWebhook p hs rawBody =
     (case verifyPayPalWebhook_try p hs rawBody of
        Inl error \<Rightarrow> False
      | Inr verdict \<Rightarrow> verdict)"

section \<open>The document store\<close>

text \<open>
  A document is its fields; the store maps a collection and a document id to a document.
\<close>

type_synonym document = "string \<Rightarrow> js option"

type_synonym firestore = "string \<times> string \<Rightarrow> document option"

text \<open>
  The calls a program can make on a document reference, each with the collection and
  the document id of the reference.
\<close>

datatype store_call =
    DocGet string string
  | DocCreate string string "(string \<times> js) list"
  | DocSet string string "(string \<times> js) list"
  | DocUpdate string string "(string \<times> js) list"
  | DocDelete string string

text \<open>
  \<open>db.collection(c).doc(i)\<close>: the client library checks its argument and builds a
  reference; nothing reaches the store yet. It throws on a value that is not a non-empty
  string, and on a string that is not a document id; otherwise the reference is to
  document \<open>i\<close> of collection \<open>c\<close>.
\<close>

definition collection_doc :: "platform \<Rightarrow> string \<Rightarrow> js \<Rightarrow> exn + string" where
  "collection_doc p c i =
     (case i of
        JStr s \<Rightarrow> if s = [] \<or> doc_refuses p s then Inl StoreArgument else Inr s
      | _ \<Rightarrow> Inl StoreArgument)"

text \<open>
  Modelled from the spec: the store collaborator of section 6 (Cloud Firestore, reached
  through the firebase-admin library), whose code is not part of the program.
  \<open>update(changes)\<close> on the reference to document \<open>s\<close> of collection \<open>c\<close> is the call
  \<open>update(id, field, value)\<close> of that interface. It fails, changing nothing, when the
  store fails the call and when the document does not exist; otherwise it overwrites the
  listed fields of that document and nothing else.
\<close>

definition doc_update ::
  "platform \<Rightarrow> firestore \<Rightarrow> string \<Rightarrow> string \<Rightarrow> (string \<times> js) list \<Rightarrow> exn + firestore" where
  "doc_update p db c s changes =
     (if store_fault p s then Inl StoreFault
      else (case db (c, s) of
              None \<Rightarrow> Inl StoreNotFound
            | Some d \<Rightarrow> Inr (db((c, s) \<mapsto> d ++ map_of changes))))"

section \<open>The middleware\<close>

text \<open>
  The request as the route sees it: the headers, \<open>req.rawBody\<close> (\<open>None\<close> is
  \<open>undefined\<close>: the \<open>verify\<close> callback did not run) and \<open>req.body\<close>.
\<close>

record request =
  headers :: headers
  rawBody :: "string option"
  body :: js

text \<open>The \<open>verify\<close> callback given to \<open>express.json\<close>.\<close>

definition rawBody_verify :: "platform \<Rightarrow> request \<Rightarrow> string \<Rightarrow> request" where
  "rawBody_verify p req buf = req\<lparr>rawBody := Some (Buffer_toString p buf)\<rparr>"

text \<open>
  \<open>express.json\<close> with that option, as far as the program relies on it: the bytes read
  from the request go to the callback first and are then parsed into \<open>req.body\<close> by the
  framework's own parser; a body that parser refuses ends the request before the route;
  a request with no JSON body (\<open>None\<close>) passes unchanged.
\<close>

definition express_json :: "platform \<Rightarrow> request \<Rightarrow> string option \<Rightarrow> exn + request" where
  "express_json p req incoming =
     (case incoming of
        None \<Rightarrow> Inr req
      | Some buf \<Rightarrow>
          (let req' = rawBody_verify p req buf
           in case body_parse p buf of
                None \<Rightarrow> Inl SyntaxError
              | Some v \<Rightarrow> Inr (req'\<lparr>body := v\<rparr>)))"

section \<open>The webhook route\<close>

text \<open>
  What handling one request leaves behind: the exception that escaped the handler, if
  one did; the responses sent with \<open>res.status(code).send(text)\<close>, in order; the calls
  made on the store, in order; and the store afterwards. Console output is not kept.
\<close>

record outcome =
  thrown :: "exn option"
  sent :: "(nat \<times> string) list"
  calls :: "store_call list"
  store :: firestore

definition uncaught :: "exn \<Rightarrow> firestore \<Rightarrow> outcome" where
  "uncaught e db = \<lparr> thrown = Some e, sent = [], calls = [], store = db \<rparr>"

definition technician_update :: "string \<Rightarrow> store_call" where
  "technician_update technicianId =
     DocUpdate ''technicians'' technicianId [(''validationStatus'', JStr ''pending'')]"

text \<open>
  The handler of \<open>app.post('/api/paypal-webhook')\<close>. The two template literals that
  interpolate a value of the event (\<open>technicianId\<close> before the \<open>try\<close>, \<open>event.event_type\<close>
  in the last \<open>else\<close>) convert it to a string, which can throw; the later ones interpolate
  \<open>technicianId\<close> again, which has been converted by then.
\<close>

definition paypal_webhook :: "platform \<Rightarrow> request \<Rightarrow> firestore \<Rightarrow> outcome" where
  "paypal_webhook p req db =
     (let isVerified = verifyPayPalWebhook p (headers req) (rawBody req)
      in if \<not> isVerified then
           \<lparr> thrown = None,
             sent = [(401, ''Verificaci'' @ [CHR 0xC3, CHR 0xB3] @ ''n de Webhook fallida.'')],
             calls = [], store = db \<rparr>
         else
           (let event = body req
            in case get_prop event ''event_type'' of
                 Inl e \<Rightarrow> uncaught e db
               | Inr event_type \<Rightarrow>
                   if event_type = JStr ''BILLING.SUBSCRIPTION.CANCELLED'' then
                     (case get_prop event ''resource'' of
                        Inl e \<Rightarrow> uncaught e db
                      | Inr resource \<Rightarrow>
                          (case get_prop resource ''custom_id'' of
                             Inl e \<Rightarrow> uncaught e db
                           | Inr technicianId \<Rightarrow>
                               if \<not> truthy technicianId then
                                 \<lparr> thrown = None,
                                   sent = [(200, ''Evento recibido pero sin technicianId.'')],
                                   calls = [], store = db \<rparr>
                               else if ToString_throws technicianId then
                                 uncaught TypeError db
                               else
                                 (case collection_doc p ''technicians'' technicianId of
                                    Inl error \<Rightarrow>
                                      \<lparr> thrown = None,
                                        sent = [(500, ''Error interno del servidor al actualizar la base de datos.'')],
                                        calls = [], store = db \<rparr>
                                  | Inr technicianRef \<Rightarrow>
                                      (case doc_update p db ''technicians'' technicianRef
                                              [(''validationStatus'', JStr ''pending'')] of
                                         Inl error \<Rightarrow>
                                           \<lparr> thrown = None,
                                             sent = [(500, ''Error interno del servidor al actualizar la base de datos.'')],
                                             calls = [technician_update technicianRef],
                                             store = db \<rparr>
                                       | Inr db' \<Rightarrow>
                                           \<lparr> thrown = None,
                                             sent = [(200, ''Webhook recibido y procesado'')],
                                             calls = [technician_update technicianRef],
                                             store = db' \<rparr>))))
                   else if ToString_throws event_type then
                     uncaught TypeError db
                   else
                     \<lparr> thrown = None,
                       sent = [(200, ''Webhook recibido y procesado'')],
                       calls = [], store = db \<rparr>))"

text \<open>The words of the invariants, read on an event.\<close>

definition is_cancellation :: "js \<Rightarrow> bool" where
  "is_cancellation event =
     (get_prop event ''event_type'' = Inr (JStr ''BILLING.SUBSCRIPTION.CANCELLED''))"

definition correlation_id :: "js \<Rightarrow> js option" where
  "correlation_id event =
     (case get_prop event ''resource'' of
        Inl e \<Rightarrow> None
      | Inr resource \<Rightarrow>
          (case get_prop resource ''custom_id'' of
             Inl e \<Rightarrow> None
           | Inr v \<Rightarrow> if truthy v then Some v else None))"

section \<open>Scenarios\<close>

text \<open>
  Concrete platforms for the scenarios of the specification. The JSON functions are tables
  holding the values \<open>JSON.parse\<close> and \<open>JSON.stringify\<close> give on the texts and objects
  of the scenarios; outside the table the parse fails and the serial text is empty, and
  no scenario reaches there. \<open>Buffer.toString\<close> is the identity on these ASCII bodies.
  The store's client refuses \<open>tech/123\<close>, whose path \<open>technicians/tech/123\<close> names a
  collection and not a document.
\<close>

definition token_json :: string where
  \<open>token_json = ''{"access_token":"A21AAF"}''\<close>

definition verdict_success :: string where
  \<open>verdict_success = ''{"verification_status":"SUCCESS"}''\<close>

definition verdict_failure :: string where
  \<open>verdict_failure = ''{"verification_status":"FAILURE"}''\<close>

definition tech_123_raw :: string where
  \<open>tech_123_raw =
     ''{"event_type":"BILLING.SUBSCRIPTION.CANCELLED","resource":{"custom_id":"tech_123"}}''\<close>

definition tech_123_spaced :: string where
  \<open>tech_123_spaced =
     ''{ "event_type": "BILLING.SUBSCRIPTION.CANCELLED", "resource": { "custom_id": "tech_123" } }''\<close>

definition tech_123_event :: js where
  "tech_123_event =
     JObj [(''event_type'', JStr ''BILLING.SUBSCRIPTION.CANCELLED''),
           (''resource'', JObj [(''custom_id'', JStr ''tech_123'')])]"

definition no_resource_raw :: string where
  \<open>no_resource_raw = ''{"event_type":"BILLING.SUBSCRIPTION.CANCELLED"}''\<close>

definition no_resource_event :: js where
  "no_resource_event = JObj [(''event_type'', JStr ''BILLING.SUBSCRIPTION.CANCELLED'')]"

definition null_resource_raw :: string where
  \<open>null_resource_raw = ''{"event_type":"BILLING.SUBSCRIPTION.CANCELLED","resource":null}''\<close>

definition null_resource_event :: js where
  "null_resource_event =
     JObj [(''event_type'', JStr ''BILLING.SUBSCRIPTION.CANCELLED''), (''resource'', JNull)]"

definition empty_json :: string where
  "empty_json = ''{}''"

definition number_id_raw :: string where
  \<open>number_id_raw =
     ''{"event_type":"BILLING.SUBSCRIPTION.CANCELLED","resource":{"custom_id":123}}''\<close>

definition number_id_event :: js where
  "number_id_event =
     JObj [(''event_type'', JStr ''BILLING.SUBSCRIPTION.CANCELLED''),
           (''resource'', JObj [(''custom_id'', JNum 123)])]"

definition slash_id_raw :: string where
  \<open>slash_id_raw =
     ''{"event_type":"BILLING.SUBSCRIPTION.CANCELLED","resource":{"custom_id":"tech/123"}}''\<close>

definition slash_id_event :: js where
  "slash_id_event =
     JObj [(''event_type'', JStr ''BILLING.SUBSCRIPTION.CANCELLED''),
           (''resource'', JObj [(''custom_id'', JStr ''tech/123'')])]"

definition tech_999_raw :: string where
  \<open>tech_999_raw =
     ''{"event_type":"BILLING.SUBSCRIPTION.CANCELLED","resource":{"custom_id":"tech_999"}}''\<close>

definition tech_999_event :: js where
  "tech_999_event =
     JObj [(''event_type'', JStr ''BILLING.SUBSCRIPTION.CANCELLED''),
           (''resource'', JObj [(''custom_id'', JStr ''tech_999'')])]"

text \<open>
  A body that reads differently in two encodings. As UTF-8, which is how
  \<open>buf.toString()\<close> reads it, the \<open>custom_id\<close> is the ten characters \<open>+AHQ-ech_5\<close>.
  As UTF-7, \<open>+AHQ-\<close> is the letter \<open>t\<close> (the base64 of its UTF-16 code unit 0074) and the
  \<open>custom_id\<close> is \<open>tech_5\<close>.
\<close>

definition utf7_raw :: string where
  \<open>utf7_raw =
     ''{"event_type":"BILLING.SUBSCRIPTION.CANCELLED","resource":{"custom_id":"+AHQ-ech_5"}}''\<close>

definition utf7_as_utf8_event :: js where
  "utf7_as_utf8_event =
     JObj [(''event_type'', JStr ''BILLING.SUBSCRIPTION.CANCELLED''),
           (''resource'', JObj [(''custom_id'', JStr ''+AHQ-ech_5'')])]"

definition utf7_as_utf7_event :: js where
  "utf7_as_utf7_event =
     JObj [(''event_type'', JStr ''BILLING.SUBSCRIPTION.CANCELLED''),
           (''resource'', JObj [(''custom_id'', JStr ''tech_5'')])]"

definition sandbox_parse :: "string \<Rightarrow> js option" where
  "sandbox_parse s =
     (if s = token_json then Some (JObj [(''access_token'', JStr ''A21AAF'')])
      else if s = verdict_success then Some (JObj [(''verification_status'', JStr ''SUCCESS'')])
      else if s = verdict_failure then Some (JObj [(''verification_status'', JStr ''FAILURE'')])
      else if s = tech_123_raw then Some tech_123_event
      else if s = tech_123_spaced then Some tech_123_event
      else if s = no_resource_raw then Some no_resource_event
      else if s = null_resource_raw then Some null_resource_event
      else if s = empty_json then Some (JObj [])
      else if s = number_id_raw then Some number_id_event
      else if s = slash_id_raw then Some slash_id_event
      else if s = tech_999_raw then Some tech_999_event
      else if s = utf7_raw then Some utf7_as_utf8_event
      else None)"

definition paypal_headers :: headers where
  "paypal_headers k =
     (if k = ''paypal-auth-algo'' then Some ''SHA256withRSA''
      else if k = ''paypal-cert-url'' then Some ''https://api.paypal.com/cert.pem''
      else if k = ''paypal-transmission-id'' then Some ''tx-1''
      else if k = ''paypal-transmission-sig'' then Some ''c2ln''
      else if k = ''paypal-transmission-time'' then Some ''2024-01-01T00:00:00Z''
      else None)"

definition tech_123_verification :: js where
  "tech_123_verification =
     JObj [ (''auth_algo'', JStr ''SHA256withRSA''),
            (''cert_url'', JStr ''https://api.paypal.com/cert.pem''),
            (''transmission_id'', JStr ''tx-1''),
            (''transmission_sig'', JStr ''c2ln''),
            (''transmission_time'', JStr ''2024-01-01T00:00:00Z''),
            (''webhook_id'', JStr ''WH-1''),
            (''webhook_event'', tech_123_event) ]"

definition tech_123_verification_json :: string where
  \<open>tech_123_verification_json =
     ''{"auth_algo":"SHA256withRSA","cert_url":"https://api.paypal.com/cert.pem",''
     @ ''"transmission_id":"tx-1","transmission_sig":"c2ln",''
     @ ''"transmission_time":"2024-01-01T00:00:00Z","webhook_id":"WH-1","webhook_event":''
     @ tech_123_raw @ ''}''\<close>

definition sandbox_stringify :: "js \<Rightarrow> string" where
  "sandbox_stringify v = (if v = tech_123_verification then tech_123_verification_json else [])"

abbreviation replied :: "nat \<Rightarrow> string \<Rightarrow> exn + http_response" where
  "replied code s \<equiv> Inr \<lparr> status = code, body_text = Inr s \<rparr>"

definition sandbox_fetch ::
  "(exn + http_response) \<Rightarrow> (exn + http_response) \<Rightarrow> http_request \<Rightarrow> exn + http_response" where
  "sandbox_fetch token verdict rq =
     (if url rq = ''https://api-m.sandbox.paypal.com/v1/oauth2/token'' then token
      else if url rq = ''https://api-m.sandbox.paypal.com/v1/notifications/verify-webhook-signature''
      then verdict
      else Inl FetchError)"

text \<open>
  The sandbox whose token endpoint settles as \<open>token\<close> and whose verification endpoint
  settles as \<open>verdict\<close>.
\<close>

definition sandbox :: "(exn + http_response) \<Rightarrow> (exn + http_response) \<Rightarrow> platform" where
  "sandbox token verdict =
     \<lparr> env = (\<lambda>k. if k = ''PAYPAL_WEBHOOK_ID'' then Some ''WH-1'' else None),
       JSON_parse = sandbox_parse,
       JSON_stringify = sandbox_stringify,
       Buffer_toString = (\<lambda>buf. buf),
       body_parse = sandbox_parse,
       fetch = sandbox_fetch token verdict,
       doc_refuses = (\<lambda>s. s = ''tech/123''),
       store_fault = (\<lambda>s. False) \<rparr>"

definition scenario_A :: platform where
  "scenario_A = sandbox (replied 200 token_json) (replied 200 verdict_success)"

definition scenario_B :: platform where
  "scenario_B = sandbox (replied 200 token_json) (replied 200 verdict_failure)"

text \<open>The token endpoint answers 200 with a JSON body that holds no token.\<close>

definition token_missing :: platform where
  "token_missing = sandbox (replied 200 empty_json) (replied 200 verdict_success)"

text \<open>
  A delivery whose \<open>Content-Type\<close> declares \<open>charset=utf-7\<close>: \<open>express.json\<close> accepts
  every charset whose name begins with \<open>utf-\<close> and decodes the body with it before
  parsing, so it reads \<open>utf7_raw\<close> as UTF-7.
\<close>

definition utf7_delivery :: platform where
  "utf7_delivery =
     scenario_A\<lparr>body_parse :=
       (\<lambda>buf. if buf = utf7_raw then Some utf7_as_utf7_event else sandbox_parse buf)\<rparr>"

definition invalid_client_json :: string where
  \<open>invalid_client_json = ''{"error":"invalid_client"}''\<close>

definition denied_plain :: platform where
  "denied_plain = sandbox (replied 401 ''Unauthorized'') (Inl FetchError)"

definition denied_json :: platform where
  "denied_json = sandbox (replied 401 invalid_client_json) (Inl FetchError)"

definition fresh_request :: request where
  "fresh_request = \<lparr> headers = paypal_headers, rawBody = None, body = JObj [] \<rparr>"

definition tech_123_request :: request where
  "tech_123_request =
     \<lparr> headers = paypal_headers, rawBody = Some tech_123_raw, body = tech_123_event \<rparr>"

definition no_resource_request :: request where
  "no_resource_request =
     \<lparr> headers = paypal_headers, rawBody = Some no_resource_raw, body = no_resource_event \<rparr>"

definition null_resource_request :: request where
  "null_resource_request =
     \<lparr> headers = paypal_headers, rawBody = Some null_resource_raw, body = null_resource_event \<rparr>"




definition utf7_request :: request where
  "utf7_request =
     \<lparr> headers = paypal_headers, rawBody = Some utf7_raw, body = utf7_as_utf7_event \<rparr>"

definition validated_technician :: document where
  "validated_technician =
     [''validationStatus'' \<mapsto> JStr ''validated'', ''name'' \<mapsto> JStr ''Ana'']"

definition pending_technician :: document where
  "pending_technician =
     [''validationStatus'' \<mapsto> JStr ''pending'', ''name'' \<mapsto> JStr ''Ana'']"

definition technicians_db :: firestore where
  "technicians_db = [(''technicians'', ''tech_123'') \<mapsto> validated_technician]"

definition two_technicians_db :: firestore where
  "two_technicians_db =
     [(''technicians'', ''tech_5'') \<mapsto> validated_technician,
      (''technicians'', ''+AHQ-ech_5'') \<mapsto> validated_technician]"

section \<open>Evaluating the scenarios\<close>

lemma sandbox_parse_simps:
  "sandbox_parse token_json = Some (JObj [(''access_token'', JStr ''A21AAF'')])"
  "sandbox_parse verdict_success = Some (JObj [(''verification_status'', JStr ''SUCCESS'')])"
  "sandbox_parse verdict_failure = Some (JObj [(''verification_status'', JStr ''FAILURE'')])"
  "sandbox_parse tech_123_raw = Some tech_123_event"
  "sandbox_parse tech_123_spaced = Some tech_123_event"
  "sandbox_parse no_resource_raw = Some no_resource_event"
  "sandbox_parse null_resource_raw = Some null_resource_event"
  "sandbox_parse empty_json = Some (JObj [])"
  "sandbox_parse number_id_raw = Some number_id_event"
  "sandbox_parse slash_id_raw = Some slash_id_event"
  "sandbox_parse tech_999_raw = Some tech_999_event"
  "sandbox_parse utf7_raw = Some utf7_as_utf8_event"
  by (simp_all add: sandbox_parse_def token_json_def verdict_success_def verdict_failure_def
      tech_123_raw_def tech_123_spaced_def no_resource_raw_def null_resource_raw_def
      empty_json_def number_id_raw_def slash_id_raw_def tech_999_raw_def utf7_raw_def)

lemma sandbox_fields:
  "JSON_parse (sandbox t v) = sandbox_parse"
  "JSON_stringify (sandbox t v) = sandbox_stringify"
  "body_parse (sandbox t v) = sandbox_parse"
  "Buffer_toString (sandbox t v) buf = buf"
  "doc_refuses (sandbox t v) s = (s = ''tech/123'')"
  "store_fault (sandbox t v) s = False"
  "fetch (sandbox t v) (token_request (sandbox t v)) = t"
  "fetch (sandbox t v) (verification_request (sandbox t v) hs a ev) = v"
  by (simp_all add: sandbox_def sandbox_fetch_def token_request_def verification_request_def
      PAYPAL_API_BASE_def)

lemma sandbox_verificationData:
  "verificationData (sandbox t v) paypal_headers tech_123_event = tech_123_verification"
  by (simp add: verificationData_def header_def paypal_headers_def sandbox_def
      tech_123_verification_def)

lemma sandbox_token:
  "getPayPalAccessToken (sandbox (replied 200 token_json) v) = Inr (JStr ''A21AAF'')"
  by (simp add: getPayPalAccessToken_def sandbox_fields ok_def response_json_def
      sandbox_parse_simps)

lemma sandbox_post:
  assumes "sandbox_parse raw = Some ev"
  shows "verification_post (sandbox (replied 200 token_json) v) hs (Some raw)
           = Inr (verification_request (sandbox (replied 200 token_json) v) hs (JStr ''A21AAF'') ev)"
  using assms
  by (simp add: verification_post_def sandbox_token parse_rawBody_def sandbox_fields)

lemma scenario_A_verified:
  assumes "sandbox_parse raw = Some ev"
  shows "verifyPayPalWebhook scenario_A hs (Some raw)"
  unfolding scenario_A_def
  by (simp add: verifyPayPalWebhook_def verifyPayPalWebhook_try_def sandbox_post [OF assms]
      sandbox_fields ok_def response_json_def sandbox_parse_simps)


lemma tech_123_event_facts:
  "is_cancellation tech_123_event"
  "correlation_id tech_123_event = Some (JStr ''tech_123'')"
  by (simp_all add: is_cancellation_def correlation_id_def tech_123_event_def)

lemma tech_123_request_fields:
  "headers tech_123_request = paypal_headers"
  "rawBody tech_123_request = Some tech_123_raw"
  "body tech_123_request = tech_123_event"
  by (simp_all add: tech_123_request_def)

lemma tech_123_update:
  "doc_update (sandbox t v) technicians_db ''technicians'' ''tech_123''
      [(''validationStatus'', JStr ''pending'')]
     = Inr [(''technicians'', ''tech_123'') \<mapsto>
              [''validationStatus'' \<mapsto> JStr ''pending'', ''name'' \<mapsto> JStr ''Ana'']]"
  by (auto simp: doc_update_def sandbox_fields technicians_db_def validated_technician_def
      map_add_def fun_eq_iff)

text \<open>The platform of the UTF-7 delivery differs from scenario A in the framework's parser only.\<close>

lemma body_parse_dropped:
  "token_request (p\<lparr>body_parse := f\<rparr>) = token_request p"
  "response_json (p\<lparr>body_parse := f\<rparr>) response = response_json p response"
  "parse_rawBody (p\<lparr>body_parse := f\<rparr>) raw = parse_rawBody p raw"
  "verification_request (p\<lparr>body_parse := f\<rparr>) hs a ev = verification_request p hs a ev"
  "collection_doc (p\<lparr>body_parse := f\<rparr>) c i = collection_doc p c i"
  "doc_update (p\<lparr>body_parse := f\<rparr>) db c s changes = doc_update p db c s changes"
  by (simp_all add: token_request_def PAYPAL_API_BASE_def response_json_def parse_rawBody_def
      verification_request_def verificationData_def collection_doc_def doc_update_def
      cong: js.case_cong sum.case_cong option.case_cong)

lemma body_parse_irrelevant:
  "getPayPalAccessToken (p\<lparr>body_parse := f\<rparr>) = getPayPalAccessToken p"
  "verification_post (p\<lparr>body_parse := f\<rparr>) hs raw = verification_post p hs raw"
  "verifyPayPalWebhook (p\<lparr>body_parse := f\<rparr>) hs raw = verifyPayPalWebhook p hs raw"
  by (simp_all add: getPayPalAccessToken_def verification_post_def verifyPayPalWebhook_def
      verifyPayPalWebhook_try_def body_parse_dropped cong: sum.case_cong if_cong)

section \<open>The store call\<close>

lemma map_add_twice: "(d ++ m) ++ m = d ++ m"
  by (auto simp: map_add_def fun_eq_iff split: option.splits)

lemma collection_doc_accepts:
  "collection_doc p c i = Inr s \<longleftrightarrow> i = JStr s \<and> s \<noteq> [] \<and> \<not> doc_refuses p s"
  by (auto simp: collection_doc_def split: js.splits)

lemma doc_update_frame:
  assumes "doc_update p db c s changes = Inr db'"
  shows "\<exists>d. \<not> store_fault p s \<and> db (c, s) = Some d
           \<and> db' = db((c, s) \<mapsto> d ++ map_of changes)"
  using assms
  by (auto simp: doc_update_def split: if_splits option.splits)

lemma doc_update_repeat:
  assumes "doc_update p db c s changes = Inr db'"
    and "doc_update p' db' c s changes = Inr db''"
  shows "db'' = db'"
proof -
  from doc_update_frame [OF assms(1)] obtain d where
    db': "db' = db((c, s) \<mapsto> d ++ map_of changes)"
    by blast
  from doc_update_frame [OF assms(2)] obtain d' where
    d': "db' (c, s) = Some d'" and db'': "db'' = db'((c, s) \<mapsto> d' ++ map_of changes)"
    by auto
  from d' db' have "d' = d ++ map_of changes" by simp
  with db' db'' show ?thesis by (simp add: map_add_twice)
qed

lemma doc_update_again:
  assumes "doc_update p db c s changes = Inr db'"
  shows "doc_update p db' c s changes = Inr db'"
proof -
  from doc_update_frame [OF assms] obtain d where
    nofault: "\<not> store_fault p s"
    and db': "db' = db((c, s) \<mapsto> d ++ map_of changes)"
    by blast
  show ?thesis
    by (simp add: doc_update_def nofault db' map_add_twice)
qed

section \<open>The paths of the route\<close>

lemma paypal_webhook_rejected:
  assumes "\<not> verifyPayPalWebhook p (headers req) (rawBody req)"
  shows "paypal_webhook p req db =
           \<lparr> thrown = None,
             sent = [(401, ''Verificaci'' @ [CHR 0xC3, CHR 0xB3] @ ''n de Webhook fallida.'')],
             calls = [], store = db \<rparr>"
  using assms by (simp add: paypal_webhook_def)

lemma get_prop_throws:
  "get_prop r k = Inl e \<longleftrightarrow> (r = JUndefined \<or> r = JNull) \<and> e = TypeError"
  by (cases r) auto

lemma correlation_id_Some:
  "correlation_id event = Some technicianId \<longleftrightarrow>
     (\<exists>resource. get_prop event ''resource'' = Inr resource
        \<and> get_prop resource ''custom_id'' = Inr technicianId \<and> truthy technicianId)"
  by (auto simp: correlation_id_def split: sum.splits if_splits)

lemma paypal_webhook_other_type:
  assumes "verifyPayPalWebhook p (headers req) (rawBody req)"
    and "get_prop (body req) ''event_type'' = Inr event_type"
    and "event_type \<noteq> JStr ''BILLING.SUBSCRIPTION.CANCELLED''"
  shows "paypal_webhook p req db =
     (if ToString_throws event_type then uncaught TypeError db
      else \<lparr> thrown = None, sent = [(200, ''Webhook recibido y procesado'')],
             calls = [], store = db \<rparr>)"
  using assms by (simp add: paypal_webhook_def)

lemma paypal_webhook_no_id:
  assumes "verifyPayPalWebhook p (headers req) (rawBody req)"
    and "is_cancellation (body req)"
    and "correlation_id (body req) = None"
  shows "paypal_webhook p req db =
     (if get_prop (body req) ''resource'' = Inr JUndefined
         \<or> get_prop (body req) ''resource'' = Inr JNull
      then uncaught TypeError db
      else \<lparr> thrown = None, sent = [(200, ''Evento recibido pero sin technicianId.'')],
             calls = [], store = db \<rparr>)"
proof -
  from assms(2) have ty: "get_prop (body req) ''event_type'' = Inr (JStr ''BILLING.SUBSCRIPTION.CANCELLED'')"
    by (simp add: is_cancellation_def)
  then have "body req \<noteq> JUndefined" and "body req \<noteq> JNull"
    by auto
  then obtain resource where resource: "get_prop (body req) ''resource'' = Inr resource"
    by (cases "get_prop (body req) ''resource''") (auto simp: get_prop_throws)
  show ?thesis
  proof (cases "get_prop resource ''custom_id''")
    case (Inl e)
    then have "e = TypeError" and "resource = JUndefined \<or> resource = JNull"
      by (simp_all add: get_prop_throws)
    with Inl resource assms(1) ty show ?thesis by (auto simp: paypal_webhook_def)
  next
    case (Inr technicianId)
    then have "resource \<noteq> JUndefined" and "resource \<noteq> JNull"
      by auto
    moreover from Inr resource assms(3) have "\<not> truthy technicianId"
      by (simp add: correlation_id_def split: if_splits)
    ultimately show ?thesis
      using Inr resource assms(1) ty by (simp add: paypal_webhook_def)
  qed
qed

lemma paypal_webhook_quiet:
  assumes "\<not> (verifyPayPalWebhook p (headers req) (rawBody req)
          \<and> is_cancellation (body req) \<and> correlation_id (body req) \<noteq> None)"
  shows "calls (paypal_webhook p req db) = [] \<and> store (paypal_webhook p req db) = db"
proof (cases "verifyPayPalWebhook p (headers req) (rawBody req)")
  case False
  then show ?thesis by (simp add: paypal_webhook_rejected)
next
  case verified: True
  show ?thesis
  proof (cases "get_prop (body req) ''event_type''")
    case (Inl e)
    with verified show ?thesis by (simp add: paypal_webhook_def uncaught_def)
  next
    case (Inr event_type)
    show ?thesis
    proof (cases "event_type = JStr ''BILLING.SUBSCRIPTION.CANCELLED''")
      case False
      from paypal_webhook_other_type [OF verified Inr False, of db] show ?thesis
        by (simp add: uncaught_def)
    next
      case True
      with Inr have canc: "is_cancellation (body req)"
        by (simp add: is_cancellation_def)
      with verified assms have "correlation_id (body req) = None" by simp
      from paypal_webhook_no_id [OF verified canc this, of db] show ?thesis
        by (simp add: uncaught_def)
    qed
  qed
qed

lemma paypal_webhook_update:
  assumes "verifyPayPalWebhook p (headers req) (rawBody req)"
    and "is_cancellation (body req)"
    and "correlation_id (body req) = Some technicianId"
  shows "paypal_webhook p req db =
     (if ToString_throws technicianId then uncaught TypeError db
      else case collection_doc p ''technicians'' technicianId of
        Inl error \<Rightarrow>
          \<lparr> thrown = None,
            sent = [(500, ''Error interno del servidor al actualizar la base de datos.'')],
            calls = [], store = db \<rparr>
      | Inr technicianRef \<Rightarrow>
          (case doc_update p db ''technicians'' technicianRef
                  [(''validationStatus'', JStr ''pending'')] of
             Inl error \<Rightarrow>
               \<lparr> thrown = None,
                 sent = [(500, ''Error interno del servidor al actualizar la base de datos.'')],
                 calls = [technician_update technicianRef], store = db \<rparr>
           | Inr db' \<Rightarrow>
               \<lparr> thrown = None, sent = [(200, ''Webhook recibido y procesado'')],
                 calls = [technician_update technicianRef], store = db' \<rparr>))"
proof -
  from assms(2) have ty: "get_prop (body req) ''event_type'' = Inr (JStr ''BILLING.SUBSCRIPTION.CANCELLED'')"
    by (simp add: is_cancellation_def)
  from assms(3) obtain resource where
    "get_prop (body req) ''resource'' = Inr resource"
    "get_prop resource ''custom_id'' = Inr technicianId" "truthy technicianId"
    by (auto simp: correlation_id_Some)
  with assms(1) ty show ?thesis
    by (simp add: paypal_webhook_def)
qed

text \<open>With a string the client accepts, the route makes the one call.\<close>

lemma paypal_webhook_string_id:
  assumes "verifyPayPalWebhook p (headers req) (rawBody req)"
    and "is_cancellation (body req)"
    and "correlation_id (body req) = Some (JStr s)"
    and "\<not> doc_refuses p s"
  shows "paypal_webhook p req db =
     (case doc_update p db ''technicians'' s [(''validationStatus'', JStr ''pending'')] of
        Inl error \<Rightarrow>
          \<lparr> thrown = None,
            sent = [(500, ''Error interno del servidor al actualizar la base de datos.'')],
            calls = [technician_update s], store = db \<rparr>
      | Inr db' \<Rightarrow>
          \<lparr> thrown = None, sent = [(200, ''Webhook recibido y procesado'')],
            calls = [technician_update s], store = db' \<rparr>)"
proof -
  from assms(3) have "s \<noteq> []"
    by (auto simp: correlation_id_def split: sum.splits if_splits)
  with assms(4) have "collection_doc p ''technicians'' (JStr s) = Inr s"
    by (simp add: collection_doc_accepts)
  with paypal_webhook_update [OF assms(1-3), of db] show ?thesis
    by simp
qed

text \<open>
  An exception escapes the handler exactly when a verified event has no readable
  \<open>event_type\<close>, or is a cancellation whose \<open>resource\<close> is \<open>undefined\<close> or \<open>null\<close>, or
  holds a value that is interpolated and has no string: the \<open>event_type\<close> of an event that
  is not a cancellation, the \<open>custom_id\<close> of one that is.
\<close>

lemma paypal_webhook_throws_iff:
  "thrown (paypal_webhook p req db) \<noteq> None \<longleftrightarrow>
     verifyPayPalWebhook p (headers req) (rawBody req)
     \<and> (isl (get_prop (body req) ''event_type'')
        \<or> (\<exists>event_type. get_prop (body req) ''event_type'' = Inr event_type
              \<and> event_type \<noteq> JStr ''BILLING.SUBSCRIPTION.CANCELLED''
              \<and> ToString_throws event_type)
        \<or> is_cancellation (body req)
          \<and> (get_prop (body req) ''resource'' = Inr JUndefined
             \<or> get_prop (body req) ''resource'' = Inr JNull
             \<or> (\<exists>technicianId. correlation_id (body req) = Some technicianId
                  \<and> ToString_throws technicianId)))"
proof (cases "verifyPayPalWebhook p (headers req) (rawBody req)")
  case False
  then show ?thesis by (simp add: paypal_webhook_rejected)
next
  case verified: True
  show ?thesis
  proof (cases "get_prop (body req) ''event_type''")
    case (Inl e)
    with verified show ?thesis by (simp add: paypal_webhook_def uncaught_def)
  next
    case (Inr event_type)
    show ?thesis
    proof (cases "event_type = JStr ''BILLING.SUBSCRIPTION.CANCELLED''")
      case False
      with Inr have "\<not> is_cancellation (body req)"
        by (simp add: is_cancellation_def)
      with paypal_webhook_other_type [OF verified Inr False, of db] verified Inr False
      show ?thesis by (simp add: uncaught_def)
    next
      case True
      with Inr have canc: "is_cancellation (body req)"
        by (simp add: is_cancellation_def)
      show ?thesis
      proof (cases "correlation_id (body req)")
        case None
        from paypal_webhook_no_id [OF verified canc None, of db] verified Inr True canc None
        show ?thesis by (simp add: uncaught_def)
      next
        case (Some technicianId)
        then obtain resource where "get_prop (body req) ''resource'' = Inr resource"
          and "get_prop resource ''custom_id'' = Inr technicianId"
          by (auto simp: correlation_id_Some)
        then have "get_prop (body req) ''resource'' \<noteq> Inr JUndefined"
          and "get_prop (body req) ''resource'' \<noteq> Inr JNull"
          by auto
        with paypal_webhook_update [OF verified canc Some, of db] verified Inr True canc Some
        show ?thesis by (simp add: uncaught_def split: sum.splits)
      qed
    qed
  qed
qed

text \<open>On every other path there is exactly one response, with the status of the outcome.\<close>

lemma paypal_webhook_answers:
  assumes "thrown (paypal_webhook p req db) = None"
  shows "map fst (sent (paypal_webhook p req db)) =
     [if \<not> verifyPayPalWebhook p (headers req) (rawBody req) then 401
      else if is_cancellation (body req)
            \<and> (\<exists>technicianId. correlation_id (body req) = Some technicianId
                 \<and> (case collection_doc p ''technicians'' technicianId of
                       Inl error \<Rightarrow> True
                     | Inr technicianRef \<Rightarrow>
                         isl (doc_update p db ''technicians'' technicianRef
                                [(''validationStatus'', JStr ''pending'')])))
      then 500 else 200]"
proof (cases "verifyPayPalWebhook p (headers req) (rawBody req)")
  case False
  then show ?thesis by (simp add: paypal_webhook_rejected)
next
  case verified: True
  show ?thesis
  proof (cases "get_prop (body req) ''event_type''")
    case (Inl e)
    with verified assms show ?thesis by (simp add: paypal_webhook_def uncaught_def)
  next
    case (Inr event_type)
    show ?thesis
    proof (cases "event_type = JStr ''BILLING.SUBSCRIPTION.CANCELLED''")
      case False
      with Inr have "\<not> is_cancellation (body req)"
        by (simp add: is_cancellation_def)
      with paypal_webhook_other_type [OF verified Inr False, of db] verified assms
      show ?thesis by (simp add: uncaught_def split: if_splits)
    next
      case True
      with Inr have canc: "is_cancellation (body req)"
        by (simp add: is_cancellation_def)
      show ?thesis
      proof (cases "correlation_id (body req)")
        case None
        from paypal_webhook_no_id [OF verified canc None, of db] verified canc None assms
        show ?thesis by (simp add: uncaught_def split: if_splits)
      next
        case (Some technicianId)
        from paypal_webhook_update [OF verified canc Some, of db] verified canc Some assms
        show ?thesis by (simp add: uncaught_def split: if_splits sum.splits)
      qed
    qed
  qed
qed

lemma tech_123_delivered:
  "paypal_webhook scenario_A tech_123_request technicians_db =
     \<lparr> thrown = None, sent = [(200, ''Webhook recibido y procesado'')],
       calls = [DocUpdate ''technicians'' ''tech_123''
                  [(''validationStatus'', JStr ''pending'')]],
       store = [(''technicians'', ''tech_123'') \<mapsto>
                  [''validationStatus'' \<mapsto> JStr ''pending'', ''name'' \<mapsto> JStr ''Ana'']] \<rparr>"
proof -
  have "verifyPayPalWebhook scenario_A (headers tech_123_request) (rawBody tech_123_request)"
    by (simp add: tech_123_request_fields scenario_A_verified sandbox_parse_simps)
  moreover have "is_cancellation (body tech_123_request)"
    and "correlation_id (body tech_123_request) = Some (JStr ''tech_123'')"
    by (simp_all add: tech_123_request_fields tech_123_event_facts)
  moreover have "\<not> doc_refuses scenario_A ''tech_123''"
    by (simp add: scenario_A_def sandbox_fields)
  ultimately show ?thesis
    using paypal_webhook_string_id [of scenario_A tech_123_request "''tech_123''" technicians_db]
    by (simp add: scenario_A_def tech_123_update technician_update_def)
qed

section \<open>The middleware and the verification request\<close>

lemma express_json_retains:
  assumes "express_json p req0 (Some buf) = Inr req"
  shows "rawBody req = Some (Buffer_toString p buf) \<and> body_parse p buf = Some (body req)
       \<and> headers req = headers req0"
  using assms
  by (auto simp: express_json_def rawBody_verify_def Let_def split: option.splits)

lemma express_json_sandbox:
  assumes "sandbox_parse raw = Some ev"
  shows "express_json (sandbox t v) fresh_request (Some raw)
           = Inr \<lparr> headers = paypal_headers, rawBody = Some raw, body = ev \<rparr>"
  using assms
  by (simp add: express_json_def rawBody_verify_def sandbox_fields fresh_request_def)

lemma verification_post_Some:
  "verification_post p hs (Some raw) = Inr request \<longleftrightarrow>
     (\<exists>accessToken webhook_event.
        getPayPalAccessToken p = Inr accessToken
      \<and> JSON_parse p raw = Some webhook_event
      \<and> request = verification_request p hs accessToken webhook_event)"
  by (auto simp: verification_post_def parse_rawBody_def split: sum.splits option.splits)

lemma verification_post_parse:
  assumes "JSON_parse p r1 = JSON_parse p r2"
  shows "verification_post p hs (Some r1) = verification_post p hs (Some r2)"
proof -
  from assms have "parse_rawBody p (Some r1) = parse_rawBody p (Some r2)"
    by (simp add: parse_rawBody_def)
  then show ?thesis
    by (simp add: verification_post_def split: sum.splits)
qed

lemma verified_has_post:
  assumes "verifyPayPalWebhook p hs raw"
  shows "\<exists>request response. verification_post p hs raw = Inr request
           \<and> fetch p request = Inr response \<and> ok response"
  using assms
  by (auto simp: verifyPayPalWebhook_def verifyPayPalWebhook_try_def split: sum.splits if_splits)

lemma getPayPalAccessToken_fails:
  assumes "fetch p (token_request p) = Inl e
         \<or> (\<exists>response. fetch p (token_request p) = Inr response \<and>
               (\<not> ok response \<or> (\<exists>e'. response_json p response = Inl e')))"
  shows "\<exists>e'. getPayPalAccessToken p = Inl e'"
  using assms
  by (auto simp: getPayPalAccessToken_def response_text_def split: sum.splits)

section \<open>Signature verification fails closed\<close>

text \<open>
  Claim C2, as the code has it. \<open>verifyPayPalWebhook\<close> never throws to its caller:
  whatever is thrown inside its \<open>try\<close> block is caught and gives \<open>false\<close>. It answers
  \<open>false\<close> when the token exchange rejects, answers a non-success status, or answers a
  body that cannot be read, is not JSON or is \<open>null\<close>; when the raw body does not parse;
  and when the verification call rejects, answers a non-success status or answers a body
  that cannot be read or is not JSON. A token response with a success status whose JSON
  object holds no \<open>access_token\<close> is not a failure: the verification request is built
  with the token \<open>undefined\<close>, and the result is the verdict of that call.
\<close>

theorem verifyPayPalWebhook_fail_closed:
  "((\<exists>e. verifyPayPalWebhook_try p hs raw = Inl e)
      \<longrightarrow> verifyPayPalWebhook p hs raw = False)
   \<and> ((\<exists>e. fetch p (token_request p) = Inl e)
      \<longrightarrow> verifyPayPalWebhook p hs raw = False)
   \<and> ((\<exists>response. fetch p (token_request p) = Inr response \<and>
          (\<not> ok response \<or> (\<exists>e. response_json p response = Inl e)
           \<or> response_json p response = Inr JNull))
      \<longrightarrow> verifyPayPalWebhook p hs raw = False)
   \<and> ((\<exists>e. getPayPalAccessToken p = Inl e)
      \<longrightarrow> verifyPayPalWebhook p hs raw = False)
   \<and> ((\<exists>e. parse_rawBody p raw = Inl e)
      \<longrightarrow> verifyPayPalWebhook p hs raw = False)
   \<and> (\<forall>request. verification_post p hs raw = Inr request \<longrightarrow>
        ((\<exists>e. fetch p request = Inl e) \<longrightarrow> verifyPayPalWebhook p hs raw = False)
      \<and> (\<forall>response. fetch p request = Inr response \<longrightarrow>
           (\<not> ok response \<or> (\<exists>e. response_json p response = Inl e)
            \<longrightarrow> verifyPayPalWebhook p hs raw = False)))
   \<and> (\<forall>response kvs webhook_event.
         fetch p (token_request p) = Inr response \<and> ok response
         \<and> response_json p response = Inr (JObj kvs) \<and> map_of kvs ''access_token'' = None
         \<and> parse_rawBody p raw = Inr webhook_event
       \<longrightarrow> verification_post p hs raw = Inr (verification_request p hs JUndefined webhook_event)
         \<and> verifyPayPalWebhook p hs raw
             = (\<exists>response' verificationResult.
                  fetch p (verification_request p hs JUndefined webhook_event) = Inr response'
                \<and> ok response'
                \<and> response_json p response' = Inr verificationResult
                \<and> get_prop verificationResult ''verification_status'' = Inr (JStr ''SUCCESS'')))"
proof -
  have caught: "verifyPayPalWebhook p hs raw = False"
    if "verifyPayPalWebhook_try p hs raw = Inl e" for e
    using that by (simp add: verifyPayPalWebhook_def)
  have token: "verifyPayPalWebhook p hs raw = False"
    if "getPayPalAccessToken p = Inl e" for e
    using that
    by (simp add: verifyPayPalWebhook_def verifyPayPalWebhook_try_def verification_post_def)
  have parse: "verifyPayPalWebhook p hs raw = False"
    if "parse_rawBody p raw = Inl e" for e
    using that
    by (simp add: verifyPayPalWebhook_def verifyPayPalWebhook_try_def verification_post_def
        split: sum.splits)
  have exchange: "verifyPayPalWebhook p hs raw = False"
    if "fetch p (token_request p) = Inl e
         \<or> (\<exists>response. fetch p (token_request p) = Inr response \<and>
               (\<not> ok response \<or> (\<exists>e'. response_json p response = Inl e')))" for e
    using getPayPalAccessToken_fails [OF that] token by blast
  have null: "verifyPayPalWebhook p hs raw = False"
    if "fetch p (token_request p) = Inr response" and "ok response"
      and "response_json p response = Inr JNull" for response
  proof -
    from that have "getPayPalAccessToken p = Inl TypeError"
      by (simp add: getPayPalAccessToken_def)
    then show ?thesis by (rule token)
  qed
  have call: "verifyPayPalWebhook p hs raw = False"
    if "verification_post p hs raw = Inr request"
      and "(\<exists>e. fetch p request = Inl e)
         \<or> (\<exists>response. fetch p request = Inr response \<and>
               (\<not> ok response \<or> (\<exists>e. response_json p response = Inl e)))" for request
    using that
    by (auto simp: verifyPayPalWebhook_def verifyPayPalWebhook_try_def response_text_def
        split: sum.splits)
  have tokenless: "verification_post p hs raw = Inr (verification_request p hs JUndefined webhook_event)
         \<and> verifyPayPalWebhook p hs raw
             = (\<exists>response' verificationResult.
                  fetch p (verification_request p hs JUndefined webhook_event) = Inr response'
                \<and> ok response'
                \<and> response_json p response' = Inr verificationResult
                \<and> get_prop verificationResult ''verification_status'' = Inr (JStr ''SUCCESS''))"
    if "fetch p (token_request p) = Inr response" and "ok response"
      and "response_json p response = Inr (JObj kvs)" and "map_of kvs ''access_token'' = None"
      and "parse_rawBody p raw = Inr webhook_event" for response kvs webhook_event
  proof -
    from that have post: "verification_post p hs raw
        = Inr (verification_request p hs JUndefined webhook_event)"
      by (simp add: verification_post_def getPayPalAccessToken_def)
    then show ?thesis
      by (auto simp: verifyPayPalWebhook_def verifyPayPalWebhook_try_def split: sum.splits)
  qed
  show ?thesis
    using caught token parse exchange null call tokenless by blast
qed

theorem verifyPayPalWebhook_fail_closed_witness:
  "fetch (sandbox (Inl FetchError) (replied 200 verdict_success))
       (token_request (sandbox (Inl FetchError) (replied 200 verdict_success))) = Inl FetchError
   \<and> verifyPayPalWebhook (sandbox (Inl FetchError) (replied 200 verdict_success))
       paypal_headers (Some tech_123_raw) = False
   \<and> fetch denied_plain (token_request denied_plain) = replied 401 ''Unauthorized''
   \<and> \<not> ok \<lparr> status = 401, body_text = Inr ''Unauthorized'' \<rparr>
   \<and> verifyPayPalWebhook denied_plain paypal_headers (Some tech_123_raw) = False
   \<and> parse_rawBody scenario_A None = Inl SyntaxError
   \<and> verifyPayPalWebhook scenario_A paypal_headers None = False
   \<and> verification_post (sandbox (replied 200 token_json) (replied 500 ''Internal Server Error''))
         paypal_headers (Some tech_123_raw)
       = Inr (verification_request
                (sandbox (replied 200 token_json) (replied 500 ''Internal Server Error''))
                paypal_headers (JStr ''A21AAF'') tech_123_event)
   \<and> fetch (sandbox (replied 200 token_json) (replied 500 ''Internal Server Error''))
        (verification_request
           (sandbox (replied 200 token_json) (replied 500 ''Internal Server Error''))
           paypal_headers (JStr ''A21AAF'') tech_123_event)
       = replied 500 ''Internal Server Error''
   \<and> \<not> ok \<lparr> status = 500, body_text = Inr ''Internal Server Error'' \<rparr>
   \<and> verifyPayPalWebhook (sandbox (replied 200 token_json) (replied 500 ''Internal Server Error''))
       paypal_headers (Some tech_123_raw) = False
   \<and> fetch token_missing (token_request token_missing) = replied 200 empty_json
   \<and> ok \<lparr> status = 200, body_text = Inr empty_json \<rparr>
   \<and> response_json token_missing \<lparr> status = 200, body_text = Inr empty_json \<rparr> = Inr (JObj [])
   \<and> parse_rawBody token_missing (Some tech_123_raw) = Inr tech_123_event
   \<and> verification_post token_missing paypal_headers (Some tech_123_raw)
       = Inr (verification_request token_missing paypal_headers JUndefined tech_123_event)"
proof -
  let ?down = "sandbox (Inl FetchError) (replied 200 verdict_success)"
  let ?broken = "sandbox (replied 200 token_json) (replied 500 ''Internal Server Error'')"
  have a: "fetch ?down (token_request ?down) = Inl FetchError"
    by (simp add: sandbox_fields)
  have b: "fetch denied_plain (token_request denied_plain) = replied 401 ''Unauthorized''"
    and b': "\<not> ok \<lparr> status = 401, body_text = Inr ''Unauthorized'' \<rparr>"
    by (simp_all add: denied_plain_def sandbox_fields ok_def)
  have c: "parse_rawBody scenario_A None = Inl SyntaxError"
    by (simp add: parse_rawBody_def)
  have d: "verification_post ?broken paypal_headers (Some tech_123_raw)
       = Inr (verification_request ?broken paypal_headers (JStr ''A21AAF'') tech_123_event)"
    by (simp add: sandbox_post sandbox_parse_simps)
  have d': "fetch ?broken (verification_request ?broken paypal_headers (JStr ''A21AAF'') tech_123_event)
       = replied 500 ''Internal Server Error''"
    and d'': "\<not> ok \<lparr> status = 500, body_text = Inr ''Internal Server Error'' \<rparr>"
    by (simp_all add: sandbox_fields ok_def)
  have e: "fetch token_missing (token_request token_missing) = replied 200 empty_json"
    and e1: "ok \<lparr> status = 200, body_text = Inr empty_json \<rparr>"
    and e2: "response_json token_missing \<lparr> status = 200, body_text = Inr empty_json \<rparr>
                = Inr (JObj [])"
    and e3: "parse_rawBody token_missing (Some tech_123_raw) = Inr tech_123_event"
    by (simp_all add: token_missing_def sandbox_fields ok_def response_json_def parse_rawBody_def
        sandbox_parse_simps)
  have f: "map_of ([] :: (string \<times> js) list) ''access_token'' = None"
    by simp
  from verifyPayPalWebhook_fail_closed [of ?down paypal_headers "Some tech_123_raw"] a
  have 1: "verifyPayPalWebhook ?down paypal_headers (Some tech_123_raw) = False"
    by blast
  from verifyPayPalWebhook_fail_closed [of denied_plain paypal_headers "Some tech_123_raw"] b b'
  have 2: "verifyPayPalWebhook denied_plain paypal_headers (Some tech_123_raw) = False"
    by blast
  from verifyPayPalWebhook_fail_closed [of scenario_A paypal_headers None] c
  have 3: "verifyPayPalWebhook scenario_A paypal_headers None = False"
    by blast
  from verifyPayPalWebhook_fail_closed [of ?broken paypal_headers "Some tech_123_raw"] d d' d''
  have 4: "verifyPayPalWebhook ?broken paypal_headers (Some tech_123_raw) = False"
    by blast
  from verifyPayPalWebhook_fail_closed [of token_missing paypal_headers "Some tech_123_raw"]
    e e1 e2 e3 f
  have 5: "verification_post token_missing paypal_headers (Some tech_123_raw)
       = Inr (verification_request token_missing paypal_headers JUndefined tech_123_event)"
    by blast
  from a b b' c d d' d'' e e1 e2 e3 1 2 3 4 5 show ?thesis
    by (intro conjI)
qed

text \<open>
  The claim as written has every malformed answer of the token exchange give \<open>false\<close>.
  It does not: when the token endpoint answers 200 with the body \<open>{}\<close>, the function
  goes on without a token, and with a \<open>SUCCESS\<close> verdict it returns \<open>true\<close>.
\<close>

theorem missing_token_still_verified:
  "fetch token_missing (token_request token_missing) = replied 200 empty_json
   \<and> JSON_parse token_missing empty_json = Some (JObj [])
   \<and> getPayPalAccessToken token_missing = Inr JUndefined
   \<and> verification_post token_missing paypal_headers (Some tech_123_raw)
       = Inr (verification_request token_missing paypal_headers JUndefined tech_123_event)
   \<and> fetch token_missing
        (verification_request token_missing paypal_headers JUndefined tech_123_event)
       = replied 200 verdict_success
   \<and> verifyPayPalWebhook token_missing paypal_headers (Some tech_123_raw) = True"
proof -
  have a: "fetch token_missing (token_request token_missing) = replied 200 empty_json"
    and b: "JSON_parse token_missing empty_json = Some (JObj [])"
    by (simp_all add: token_missing_def sandbox_fields sandbox_parse_simps)
  have c: "getPayPalAccessToken token_missing = Inr JUndefined"
    by (simp add: getPayPalAccessToken_def token_missing_def sandbox_fields ok_def
        response_json_def sandbox_parse_simps)
  have "parse_rawBody token_missing (Some tech_123_raw) = Inr tech_123_event"
    by (simp add: parse_rawBody_def token_missing_def sandbox_fields sandbox_parse_simps)
  with c have d: "verification_post token_missing paypal_headers (Some tech_123_raw)
       = Inr (verification_request token_missing paypal_headers JUndefined tech_123_event)"
    by (simp add: verification_post_def)
  have e: "fetch token_missing
        (verification_request token_missing paypal_headers JUndefined tech_123_event)
       = replied 200 verdict_success"
    by (simp add: token_missing_def sandbox_fields)
  have "response_json token_missing \<lparr> status = 200, body_text = Inr verdict_success \<rparr>
          = Inr (JObj [(''verification_status'', JStr ''SUCCESS'')])"
    by (simp add: response_json_def token_missing_def sandbox_fields sandbox_parse_simps)
  with d e have f: "verifyPayPalWebhook token_missing paypal_headers (Some tech_123_raw) = True"
    by (simp add: verifyPayPalWebhook_def verifyPayPalWebhook_try_def ok_def)
  from a b c d e f show ?thesis by (intro conjI)
qed

section \<open>The verdict\<close>

text \<open>
  Claim C3. \<open>verifyPayPalWebhook\<close> returns \<open>true\<close> if and only if the call to the
  verification endpoint was made and resolved with a success status, and the
  \<open>verification_status\<close> field of its JSON body is exactly the string \<open>SUCCESS\<close>; any
  other value of the field, and no field at all, give \<open>false\<close>.
\<close>

theorem verifyPayPalWebhook_true_iff:
  "verifyPayPalWebhook p hs raw \<longleftrightarrow>
     (\<exists>request response verificationResult.
        verification_post p hs raw = Inr request
      \<and> fetch p request = Inr response
      \<and> ok response
      \<and> response_json p response = Inr verificationResult
      \<and> get_prop verificationResult ''verification_status'' = Inr (JStr ''SUCCESS''))"
  by (auto simp: verifyPayPalWebhook_def verifyPayPalWebhook_try_def split: sum.splits)

theorem verifyPayPalWebhook_true_iff_witness:
  "verifyPayPalWebhook scenario_A paypal_headers (Some tech_123_raw)
   \<and> \<not> verifyPayPalWebhook scenario_B paypal_headers (Some tech_123_raw)"
proof -
  let ?rqA = "verification_request scenario_A paypal_headers (JStr ''A21AAF'') tech_123_event"
  let ?rqB = "verification_request scenario_B paypal_headers (JStr ''A21AAF'') tech_123_event"
  have postA: "verification_post scenario_A paypal_headers (Some tech_123_raw) = Inr ?rqA"
    and postB: "verification_post scenario_B paypal_headers (Some tech_123_raw) = Inr ?rqB"
    by (simp_all add: scenario_A_def scenario_B_def sandbox_post sandbox_parse_simps)
  have fetchA: "fetch scenario_A ?rqA = replied 200 verdict_success"
    and fetchB: "fetch scenario_B ?rqB = replied 200 verdict_failure"
    by (simp_all add: scenario_A_def scenario_B_def sandbox_fields)
  have okA: "ok \<lparr> status = 200, body_text = Inr verdict_success \<rparr>"
    by (simp add: ok_def)
  have jsonA: "response_json scenario_A \<lparr> status = 200, body_text = Inr verdict_success \<rparr>
        = Inr (JObj [(''verification_status'', JStr ''SUCCESS'')])"
    and jsonB: "response_json scenario_B \<lparr> status = 200, body_text = Inr verdict_failure \<rparr>
        = Inr (JObj [(''verification_status'', JStr ''FAILURE'')])"
    by (simp_all add: response_json_def scenario_A_def scenario_B_def sandbox_fields
        sandbox_parse_simps)
  have fieldA: "get_prop (JObj [(''verification_status'', JStr ''SUCCESS'')]) ''verification_status''
        = Inr (JStr ''SUCCESS'')"
    and fieldB: "get_prop (JObj [(''verification_status'', JStr ''FAILURE'')]) ''verification_status''
        \<noteq> Inr (JStr ''SUCCESS'')"
    by simp_all
  from verifyPayPalWebhook_true_iff [of scenario_A paypal_headers "Some tech_123_raw"]
    postA fetchA okA jsonA fieldA
  have yes: "verifyPayPalWebhook scenario_A paypal_headers (Some tech_123_raw)"
    by blast
  from verifyPayPalWebhook_true_iff [of scenario_B paypal_headers "Some tech_123_raw"]
    postB fetchB jsonB fieldB
  have no: "\<not> verifyPayPalWebhook scenario_B paypal_headers (Some tech_123_raw)"
    by auto
  from yes no show ?thesis ..
qed

section \<open>When the store is mutated\<close>




section \<open>The one update\<close>




section \<open>Redelivery\<close>

text \<open>
  Claim C7. Delivering the same request twice leaves the store as delivering it once does:
  the update writes an absolute value. This holds when both deliveries meet the same
  platform, and, once a first delivery has applied its update, whatever the platform does
  at the second.
\<close>

theorem redelivery_idempotent:
  "store (paypal_webhook p req (store (paypal_webhook p req db)))
     = store (paypal_webhook p req db)
   \<and> (calls (paypal_webhook p req db) \<noteq> []
        \<and> map fst (sent (paypal_webhook p req db)) = [200]
      \<longrightarrow> store (paypal_webhook p' req (store (paypal_webhook p req db)))
            = store (paypal_webhook p req db))"
proof -
  let ?pending = "[(''validationStatus'', JStr ''pending'')]"
  have kept: "store (paypal_webhook q req d') = d'"
    if "doc_update p db ''technicians'' s ?pending = Inr d'"
      and "correlation_id (body req) = Some (JStr s)" and "is_cancellation (body req)"
      and "q = p \<or> q = p'" for q s d'
  proof (cases "verifyPayPalWebhook q (headers req) (rawBody req)")
    case False
    then show ?thesis using paypal_webhook_quiet [of q req d'] by blast
  next
    case True
    note route = paypal_webhook_update [OF True that(3,2), of d']
    show ?thesis
    proof (cases "collection_doc q ''technicians'' (JStr s)")
      case (Inl e)
      with route show ?thesis by simp
    next
      case (Inr s')
      then have s': "s' = s" by (simp add: collection_doc_accepts)
      show ?thesis
      proof (cases "doc_update q d' ''technicians'' s ?pending")
        case (Inl e)
        with route Inr s' show ?thesis by simp
      next
        case again: (Inr d'')
        from doc_update_repeat [OF that(1) again] have "d'' = d'" .
        with route Inr s' again show ?thesis by simp
      qed
    qed
  qed
  show ?thesis
  proof (cases "verifyPayPalWebhook p (headers req) (rawBody req)
          \<and> is_cancellation (body req) \<and> correlation_id (body req) \<noteq> None")
    case False
    then have "store (paypal_webhook p req d) = d" and "calls (paypal_webhook p req d) = []" for d
      using paypal_webhook_quiet by blast+
    then show ?thesis by simp
  next
    case True
    then obtain technicianId where cid: "correlation_id (body req) = Some technicianId"
      by auto
    from True have verified: "verifyPayPalWebhook p (headers req) (rawBody req)"
      and canc: "is_cancellation (body req)"
      by simp_all
    note route = paypal_webhook_update [OF verified canc cid]
    show ?thesis
    proof (cases "ToString_throws technicianId")
      case True
      with route have "store (paypal_webhook p req d) = d" and "calls (paypal_webhook p req d) = []" for d
        by (simp_all add: uncaught_def)
      then show ?thesis by simp
    next
      case False
      show ?thesis
      proof (cases "collection_doc p ''technicians'' technicianId")
        case (Inl e)
        with route False
        have "store (paypal_webhook p req d) = d" and "calls (paypal_webhook p req d) = []" for d
          by simp_all
        then show ?thesis by simp
      next
        case ref: (Inr s)
        then have i: "technicianId = JStr s" by (simp add: collection_doc_accepts)
        show ?thesis
        proof (cases "doc_update p db ''technicians'' s ?pending")
          case (Inl e)
          with route [of db] False ref
          have "store (paypal_webhook p req db) = db"
            and "map fst (sent (paypal_webhook p req db)) = [500]"
            by simp_all
          then show ?thesis by simp
        next
          case (Inr d')
          with route [of db] False ref have "store (paypal_webhook p req db) = d'"
            by simp
          moreover from kept [OF Inr _ canc, of p] cid i
          have "store (paypal_webhook p req d') = d'" by simp
          moreover from kept [OF Inr _ canc, of p'] cid i
          have "store (paypal_webhook p' req d') = d'" by simp
          ultimately show ?thesis by simp
        qed
      qed
    qed
  qed
qed

theorem redelivery_idempotent_witness:
  "calls (paypal_webhook scenario_A tech_123_request technicians_db) \<noteq> []
   \<and> map fst (sent (paypal_webhook scenario_A tech_123_request technicians_db)) = [200]
   \<and> store (paypal_webhook scenario_A tech_123_request technicians_db)
       = [(''technicians'', ''tech_123'') \<mapsto>
            [''validationStatus'' \<mapsto> JStr ''pending'', ''name'' \<mapsto> JStr ''Ana'']]
   \<and> store (paypal_webhook scenario_A tech_123_request
              (store (paypal_webhook scenario_A tech_123_request technicians_db)))
       = [(''technicians'', ''tech_123'') \<mapsto>
            [''validationStatus'' \<mapsto> JStr ''pending'', ''name'' \<mapsto> JStr ''Ana'']]
   \<and> store (paypal_webhook scenario_B tech_123_request
              (store (paypal_webhook scenario_A tech_123_request technicians_db)))
       = [(''technicians'', ''tech_123'') \<mapsto>
            [''validationStatus'' \<mapsto> JStr ''pending'', ''name'' \<mapsto> JStr ''Ana'']]"
proof -
  have a: "calls (paypal_webhook scenario_A tech_123_request technicians_db) \<noteq> []"
    and b: "map fst (sent (paypal_webhook scenario_A tech_123_request technicians_db)) = [200]"
    and c: "store (paypal_webhook scenario_A tech_123_request technicians_db)
       = [(''technicians'', ''tech_123'') \<mapsto>
            [''validationStatus'' \<mapsto> JStr ''pending'', ''name'' \<mapsto> JStr ''Ana'']]"
    by (simp_all add: tech_123_delivered)
  from redelivery_idempotent [of scenario_A tech_123_request technicians_db scenario_B] a b
  have "store (paypal_webhook scenario_A tech_123_request
              (store (paypal_webhook scenario_A tech_123_request technicians_db)))
          = store (paypal_webhook scenario_A tech_123_request technicians_db)"
    and "store (paypal_webhook scenario_B tech_123_request
              (store (paypal_webhook scenario_A tech_123_request technicians_db)))
          = store (paypal_webhook scenario_A tech_123_request technicians_db)"
    by blast+
  with a b c show ?thesis by simp
qed

section \<open>A cancellation without a resource\<close>

text \<open>
  Claim C5 asks that every request end in one of the responses 200, 401 and 500, a
  cancellation event without a resource included. The code does not: for the verified
  event \<open>{"event_type":"BILLING.SUBSCRIPTION.CANCELLED"}\<close>, reading
  \<open>event.resource.custom_id\<close> throws a TypeError outside every \<open>try\<close>; the handler sends
  nothing and its promise rejects.
\<close>

theorem missing_resource_escapes_handler:
  "express_json scenario_A fresh_request (Some no_resource_raw) = Inr no_resource_request
   \<and> verifyPayPalWebhook scenario_A (headers no_resource_request) (rawBody no_resource_request)
   \<and> paypal_webhook scenario_A no_resource_request technicians_db
       = \<lparr> thrown = Some TypeError, sent = [], calls = [], store = technicians_db \<rparr>"
proof -
  have a: "express_json scenario_A fresh_request (Some no_resource_raw) = Inr no_resource_request"
    by (simp add: scenario_A_def express_json_sandbox sandbox_parse_simps no_resource_request_def)
  have b: "verifyPayPalWebhook scenario_A (headers no_resource_request) (rawBody no_resource_request)"
    by (simp add: no_resource_request_def scenario_A_verified sandbox_parse_simps)
  have c: "paypal_webhook scenario_A no_resource_request technicians_db
       = \<lparr> thrown = Some TypeError, sent = [], calls = [], store = technicians_db \<rparr>"
    using b by (simp add: paypal_webhook_def no_resource_request_def no_resource_event_def
        uncaught_def)
  from a b c show ?thesis by blast
qed

text \<open>
  Claim C4 asks for exactly one response per request, 200 for a verified cancellation
  whose correlation identifier is absent. The code does not send it when the identifier
  is absent because the resource is: for the verified event
  \<open>{"event_type":"BILLING.SUBSCRIPTION.CANCELLED","resource":null}\<close> no response is
  sent at all.
\<close>

theorem null_resource_cancellation_unanswered:
  "verifyPayPalWebhook scenario_A (headers null_resource_request) (rawBody null_resource_request)
   \<and> is_cancellation (body null_resource_request)
   \<and> correlation_id (body null_resource_request) = None
   \<and> sent (paypal_webhook scenario_A null_resource_request technicians_db) = []
   \<and> thrown (paypal_webhook scenario_A null_resource_request technicians_db) = Some TypeError"
proof -
  have a: "verifyPayPalWebhook scenario_A (headers null_resource_request) (rawBody null_resource_request)"
    by (simp add: null_resource_request_def scenario_A_verified sandbox_parse_simps)
  have b: "is_cancellation (body null_resource_request)"
    and c: "correlation_id (body null_resource_request) = None"
    by (simp_all add: null_resource_request_def null_resource_event_def is_cancellation_def
        correlation_id_def)
  have d: "paypal_webhook scenario_A null_resource_request technicians_db
       = uncaught TypeError technicians_db"
    using a by (simp add: paypal_webhook_def null_resource_request_def null_resource_event_def)
  from a b c d show ?thesis by (simp add: uncaught_def)
qed

section \<open>The credential exchange\<close>

text \<open>
  Claim C8, as the code has it. When the token endpoint answers a non-success status and
  its body can be read, \<open>getPayPalAccessToken\<close> fails with an error whose message carries
  the response status; the body text is read, and is not part of the error.
  When the endpoint answers a success status and its body parses as JSON, the result is
  the \<open>access_token\<close> property of the parsed body.
\<close>

theorem token_exchange_results:
  assumes "fetch p (token_request p) = Inr response"
  shows "(\<not> ok response \<and> response_text response = Inr errorData
            \<longrightarrow> getPayPalAccessToken p =
                  Inl (Error (''Failed to get PayPal access token. Status: ''
                              @ string_of_nat (status response))))
       \<and> (ok response \<and> response_json p response = Inr data
            \<longrightarrow> getPayPalAccessToken p = get_prop data ''access_token'')
       \<and> (ok response \<and> response_json p response = Inr (JObj kvs)
            \<and> map_of kvs ''access_token'' = Some token
            \<longrightarrow> getPayPalAccessToken p = Inr token)"
  using assms by (simp add: getPayPalAccessToken_def)

theorem token_exchange_results_witness:
  "fetch denied_plain (token_request denied_plain)
     = Inr \<lparr> status = 401, body_text = Inr ''Unauthorized'' \<rparr>
   \<and> \<not> ok \<lparr> status = 401, body_text = Inr ''Unauthorized'' \<rparr>
   \<and> response_text \<lparr> status = 401, body_text = Inr ''Unauthorized'' \<rparr> = Inr ''Unauthorized''
   \<and> getPayPalAccessToken denied_plain
       = Inl (Error ''Failed to get PayPal access token. Status: 401'')
   \<and> fetch scenario_A (token_request scenario_A)
       = Inr \<lparr> status = 200, body_text = Inr token_json \<rparr>
   \<and> ok \<lparr> status = 200, body_text = Inr token_json \<rparr>
   \<and> response_json scenario_A \<lparr> status = 200, body_text = Inr token_json \<rparr>
       = Inr (JObj [(''access_token'', JStr ''A21AAF'')])
   \<and> getPayPalAccessToken scenario_A = Inr (JStr ''A21AAF'')"
proof -
  let ?denied = "\<lparr> status = 401, body_text = Inr ''Unauthorized'' \<rparr>"
  let ?granted = "\<lparr> status = 200, body_text = Inr token_json \<rparr>"
  have a: "fetch denied_plain (token_request denied_plain) = Inr ?denied"
    and b: "\<not> ok ?denied" and c: "response_text ?denied = Inr ''Unauthorized''"
    by (simp_all add: denied_plain_def sandbox_fields ok_def response_text_def)
  have d: "fetch scenario_A (token_request scenario_A) = Inr ?granted"
    and e: "ok ?granted"
    and f: "response_json scenario_A ?granted = Inr (JObj [(''access_token'', JStr ''A21AAF'')])"
    by (simp_all add: scenario_A_def sandbox_fields ok_def response_json_def sandbox_parse_simps)
  have digits: "string_of_nat 401 = ''401''"
    by (simp add: string_of_nat.simps digit_char_def)
  from token_exchange_results [OF a, where errorData = "''Unauthorized''"] b c digits
  have 1: "getPayPalAccessToken denied_plain
       = Inl (Error ''Failed to get PayPal access token. Status: 401'')"
    by simp
  from token_exchange_results [OF d, where kvs = "[(''access_token'', JStr ''A21AAF'')]" and token = "JStr ''A21AAF''"] e f
  have 2: "getPayPalAccessToken scenario_A = Inr (JStr ''A21AAF'')"
    by simp
  from a b c d e f 1 2 show ?thesis by blast
qed

text \<open>
  The claim as written has the error carry the body text as well. It does not: two
  refusals with the same status and different bodies fail with the same error.
\<close>

theorem token_error_omits_body_text:
  "fetch denied_plain (token_request denied_plain)
     = Inr \<lparr> status = 401, body_text = Inr ''Unauthorized'' \<rparr>
   \<and> fetch denied_json (token_request denied_json)
     = Inr \<lparr> status = 401, body_text = Inr invalid_client_json \<rparr>
   \<and> ''Unauthorized'' \<noteq> invalid_client_json
   \<and> getPayPalAccessToken denied_plain
       = Inl (Error ''Failed to get PayPal access token. Status: 401'')
   \<and> getPayPalAccessToken denied_json
       = Inl (Error ''Failed to get PayPal access token. Status: 401'')"
  by (simp add: denied_plain_def denied_json_def sandbox_fields getPayPalAccessToken_def
      ok_def response_text_def string_of_nat.simps digit_char_def invalid_client_json_def)

section \<open>The raw body\<close>

text \<open>
  What holds of the raw body: the text of a JSON body is kept in \<open>req.rawBody\<close>, whether
  a request is rejected depends on that text and not on \<open>req.body\<close>, and the request put
  to the verification endpoint depends on the text through its parse only.
\<close>

lemma raw_text_retained_and_reparsed:
  "(express_json p req0 (Some buf) = Inr req
      \<longrightarrow> rawBody req = Some (Buffer_toString p buf))
   \<and> (map fst (sent (paypal_webhook p (req\<lparr>body := b\<rparr>) db)) = [401]
      \<longleftrightarrow> \<not> verifyPayPalWebhook p (headers req) (rawBody req))
   \<and> (verification_post p hs (Some raw) = Inr request
      \<longrightarrow> (\<exists>webhook_event. JSON_parse p raw = Some webhook_event
            \<and> payload request = JSON_stringify p (verificationData p hs webhook_event)))
   \<and> (JSON_parse p r1 = JSON_parse p r2
      \<longrightarrow> verification_post p hs (Some r1) = verification_post p hs (Some r2)
        \<and> verifyPayPalWebhook p hs (Some r1) = verifyPayPalWebhook p hs (Some r2))"
proof -
  have retained: "rawBody req = Some (Buffer_toString p buf)"
    if "express_json p req0 (Some buf) = Inr req"
    using express_json_retains [OF that] by simp
  have gate: "map fst (sent (paypal_webhook p (req\<lparr>body := b\<rparr>) db)) = [401]
      \<longleftrightarrow> \<not> verifyPayPalWebhook p (headers req) (rawBody req)"
  proof (cases "verifyPayPalWebhook p (headers req) (rawBody req)")
    case False
    then show ?thesis by (simp add: paypal_webhook_rejected)
  next
    case True
    then have verified: "verifyPayPalWebhook p (headers (req\<lparr>body := b\<rparr>)) (rawBody (req\<lparr>body := b\<rparr>))"
      by simp
    have "map fst (sent (paypal_webhook p (req\<lparr>body := b\<rparr>) db)) \<noteq> [401]"
    proof (cases "thrown (paypal_webhook p (req\<lparr>body := b\<rparr>) db)")
      case None
      from paypal_webhook_answers [OF None] verified show ?thesis by simp
    next
      case (Some e)
      then have "thrown (paypal_webhook p (req\<lparr>body := b\<rparr>) db) \<noteq> None" by simp
      with verified have "sent (paypal_webhook p (req\<lparr>body := b\<rparr>) db) = []"
        by (auto simp: paypal_webhook_def uncaught_def Let_def split: sum.splits if_splits)
      then show ?thesis by simp
    qed
    with True show ?thesis by simp
  qed
  have submitted: "\<exists>webhook_event. JSON_parse p raw = Some webhook_event
            \<and> payload request = JSON_stringify p (verificationData p hs webhook_event)"
    if "verification_post p hs (Some raw) = Inr request"
    using that by (auto simp: verification_post_Some verification_request_def)
  have alike: "verification_post p hs (Some r1) = verification_post p hs (Some r2)
        \<and> verifyPayPalWebhook p hs (Some r1) = verifyPayPalWebhook p hs (Some r2)"
    if "JSON_parse p r1 = JSON_parse p r2"
    using verification_post_parse [OF that]
    by (simp add: verifyPayPalWebhook_def verifyPayPalWebhook_try_def)
  show ?thesis
    using retained gate submitted alike by blast
qed

text \<open>
  Claim C9 asks that signature verification work on the bytes the sender transmitted,
  never on a re-serialization of the parsed body. The code does not: it keeps the raw
  text, parses it, and submits the serialization of the parse. A body sent with spaces
  between its tokens is kept as sent in \<open>req.rawBody\<close>, yet the request put to the
  verification endpoint is the one the compact body gives, and its payload holds the
  compact serialization of the event, not the text that was sent.
\<close>

theorem verification_sees_reserialized_body:
  "tech_123_spaced \<noteq> tech_123_raw
   \<and> verification_post scenario_A paypal_headers (Some tech_123_spaced)
       = Inr (verification_request scenario_A paypal_headers (JStr ''A21AAF'') tech_123_event)
   \<and> verification_post scenario_A paypal_headers (Some tech_123_raw)
       = Inr (verification_request scenario_A paypal_headers (JStr ''A21AAF'') tech_123_event)
   \<and> payload (verification_request scenario_A paypal_headers (JStr ''A21AAF'') tech_123_event)
       = tech_123_verification_json
   \<and> express_json scenario_A fresh_request (Some tech_123_spaced)
       = Inr \<lparr> headers = paypal_headers, rawBody = Some tech_123_spaced, body = tech_123_event \<rparr>"
proof -
  have "tech_123_spaced \<noteq> tech_123_raw"
    by (simp add: tech_123_spaced_def tech_123_raw_def)
  moreover have "verification_post scenario_A paypal_headers (Some tech_123_spaced)
       = Inr (verification_request scenario_A paypal_headers (JStr ''A21AAF'') tech_123_event)"
    and "verification_post scenario_A paypal_headers (Some tech_123_raw)
       = Inr (verification_request scenario_A paypal_headers (JStr ''A21AAF'') tech_123_event)"
    by (simp_all add: scenario_A_def sandbox_post sandbox_parse_simps)
  moreover have "payload (verification_request scenario_A paypal_headers (JStr ''A21AAF'') tech_123_event)
       = tech_123_verification_json"
    by (simp add: verification_request_def scenario_A_def sandbox_verificationData
        sandbox_fields sandbox_stringify_def)
  moreover have "express_json scenario_A fresh_request (Some tech_123_spaced)
       = Inr \<lparr> headers = paypal_headers, rawBody = Some tech_123_spaced, body = tech_123_event \<rparr>"
    by (simp add: scenario_A_def express_json_sandbox sandbox_parse_simps)
  ultimately show ?thesis by (intro conjI)
qed

section \<open>The verified event and the routed event\<close>

text \<open>
  What holds of the two events: for a request that reaches the routing step the
  middleware has read a body, \<open>req.rawBody\<close> is the text of that body and \<open>req.body\<close>
  the framework's parse of the same bytes, and the \<open>webhook_event\<close> of the request that
  the verification endpoint accepted is \<open>JSON.parse\<close> of that text. The two are the same
  event where the two readings of the bytes do not disagree.
\<close>

lemma routed_event_verified_where_readings_agree:
  assumes "rawBody req0 = None"
    and "express_json p req0 incoming = Inr req"
    and "\<forall>buf v w. incoming = Some buf \<and> body_parse p buf = Some v
            \<and> JSON_parse p (Buffer_toString p buf) = Some w \<longrightarrow> v = w"
    and "verifyPayPalWebhook p (headers req) (rawBody req)"
  shows "\<exists>buf accessToken response.
           incoming = Some buf
         \<and> rawBody req = Some (Buffer_toString p buf)
         \<and> body_parse p buf = Some (body req)
         \<and> JSON_parse p (Buffer_toString p buf) = Some (body req)
         \<and> verification_post p (headers req) (rawBody req)
             = Inr (verification_request p (headers req) accessToken (body req))
         \<and> fetch p (verification_request p (headers req) accessToken (body req)) = Inr response
         \<and> ok response"
proof (cases incoming)
  case None
  with assms(2) have "req = req0" by (simp add: express_json_def)
  with assms(1,4) show ?thesis
    by (simp add: verifyPayPalWebhook_def verifyPayPalWebhook_try_def verification_post_def
        parse_rawBody_def split: sum.splits)
next
  case (Some buf)
  from assms(2) Some express_json_retains [of p req0 buf req]
  have raw: "rawBody req = Some (Buffer_toString p buf)"
    and parsed: "body_parse p buf = Some (body req)"
    by simp_all
  from verified_has_post [OF assms(4)] obtain request response where
    post: "verification_post p (headers req) (rawBody req) = Inr request"
    and resp: "fetch p request = Inr response" "ok response"
    by blast
  from post raw obtain accessToken w where
    w: "JSON_parse p (Buffer_toString p buf) = Some w"
    and request: "request = verification_request p (headers req) accessToken w"
    by (auto simp: verification_post_Some)
  from assms(3) Some parsed w have "body req = w" by blast
  with Some raw parsed w request post resp show ?thesis by blast
qed

text \<open>
  Claim C10 asks that the event routed and mutated on be the event that was verified.
  The code routes on \<open>req.body\<close>, which the framework parsed, and verifies
  \<open>JSON.parse(req.rawBody)\<close>, which it parsed itself, and the two can differ. For the body
  \<open>utf7_raw\<close> delivered with \<open>charset=utf-7\<close>, the event submitted to the verification
  endpoint, and accepted, is a cancellation for \<open>+AHQ-ech_5\<close>; the event routed is a
  cancellation for \<open>tech_5\<close>, and it is the document of \<open>tech_5\<close> that is set to
  \<open>pending\<close>.
\<close>

theorem utf7_delivery_routes_unverified_event:
  "express_json utf7_delivery fresh_request (Some utf7_raw) = Inr utf7_request
   \<and> verification_post utf7_delivery (headers utf7_request) (rawBody utf7_request)
       = Inr (verification_request utf7_delivery paypal_headers (JStr ''A21AAF'')
                utf7_as_utf8_event)
   \<and> verifyPayPalWebhook utf7_delivery (headers utf7_request) (rawBody utf7_request)
   \<and> correlation_id utf7_as_utf8_event = Some (JStr ''+AHQ-ech_5'')
   \<and> body utf7_request = utf7_as_utf7_event
   \<and> correlation_id (body utf7_request) = Some (JStr ''tech_5'')
   \<and> calls (paypal_webhook utf7_delivery utf7_request two_technicians_db)
       = [DocUpdate ''technicians'' ''tech_5'' [(''validationStatus'', JStr ''pending'')]]
   \<and> map fst (sent (paypal_webhook utf7_delivery utf7_request two_technicians_db)) = [200]
   \<and> store (paypal_webhook utf7_delivery utf7_request two_technicians_db)
         (''technicians'', ''tech_5'')
       = Some pending_technician
   \<and> store (paypal_webhook utf7_delivery utf7_request two_technicians_db)
         (''technicians'', ''+AHQ-ech_5'')
       = Some validated_technician"
proof -
  have a: "express_json utf7_delivery fresh_request (Some utf7_raw) = Inr utf7_request"
    by (simp add: express_json_def rawBody_verify_def utf7_delivery_def scenario_A_def
        sandbox_fields fresh_request_def utf7_request_def)
  have b: "verification_post utf7_delivery (headers utf7_request) (rawBody utf7_request)
       = Inr (verification_request utf7_delivery paypal_headers (JStr ''A21AAF'')
                utf7_as_utf8_event)"
    by (simp add: utf7_delivery_def body_parse_irrelevant body_parse_dropped utf7_request_def)
       (simp add: scenario_A_def sandbox_post sandbox_parse_simps)
  have c: "verifyPayPalWebhook utf7_delivery (headers utf7_request) (rawBody utf7_request)"
    by (simp add: utf7_delivery_def body_parse_irrelevant utf7_request_def scenario_A_verified
        sandbox_parse_simps)
  have d: "correlation_id utf7_as_utf8_event = Some (JStr ''+AHQ-ech_5'')"
    by (simp add: correlation_id_def utf7_as_utf8_event_def)
  have e: "body utf7_request = utf7_as_utf7_event"
    by (simp add: utf7_request_def)
  have f: "correlation_id (body utf7_request) = Some (JStr ''tech_5'')"
    and g: "is_cancellation (body utf7_request)"
    by (simp_all add: utf7_request_def correlation_id_def is_cancellation_def
        utf7_as_utf7_event_def)
  have h: "\<not> doc_refuses utf7_delivery ''tech_5''"
    by (simp add: utf7_delivery_def scenario_A_def sandbox_fields)
  have i: "doc_update utf7_delivery two_technicians_db ''technicians'' ''tech_5''
             [(''validationStatus'', JStr ''pending'')]
           = Inr (two_technicians_db((''technicians'', ''tech_5'') \<mapsto>
                   pending_technician))"
    by (auto simp: doc_update_def utf7_delivery_def scenario_A_def sandbox_fields
        two_technicians_db_def validated_technician_def pending_technician_def map_add_def
        fun_eq_iff)
  from paypal_webhook_string_id [OF c g f h, of two_technicians_db] i
  have out: "paypal_webhook utf7_delivery utf7_request two_technicians_db
       = \<lparr> thrown = None, sent = [(200, ''Webhook recibido y procesado'')],
           calls = [technician_update ''tech_5''],
           store = two_technicians_db((''technicians'', ''tech_5'') \<mapsto>
                   pending_technician) \<rparr>"
    by simp
  have j: "calls (paypal_webhook utf7_delivery utf7_request two_technicians_db)
       = [DocUpdate ''technicians'' ''tech_5'' [(''validationStatus'', JStr ''pending'')]]"
    and k: "map fst (sent (paypal_webhook utf7_delivery utf7_request two_technicians_db)) = [200]"
    and l: "store (paypal_webhook utf7_delivery utf7_request two_technicians_db)
         (''technicians'', ''tech_5'')
       = Some pending_technician"
    and m: "store (paypal_webhook utf7_delivery utf7_request two_technicians_db)
         (''technicians'', ''+AHQ-ech_5'')
       = Some validated_technician"
    unfolding out by (simp_all add: technician_update_def two_technicians_db_def)
  from a b c d e f j k l m show ?thesis by (intro conjI)
qed

end
